theory Spec2Isabelle
  imports Complex_Main "HOL-Library.Log_Nat"
begin

section \<open>Numbers and rounding\<close>

text \<open>
  The numbers of payroll-mvp are Python floats, IEEE 754 doubles, and Python ints read
  from the rule tables. A finite double is a rational number, and the model computes
  on rationals: every arithmetic operation of the calculator is the exact operation
  followed by \<open>fl\<close>, the rounding to the nearest double with a tie going to the even
  significand, which is what \<^verbatim>\<open>+\<close>, \<^verbatim>\<open>-\<close>, \<^verbatim>\<open>*\<close> and \<^verbatim>\<open>/\<close> do on doubles.
  Comparisons, \<^verbatim>\<open>min\<close> and \<^verbatim>\<open>abs\<close> are exact. The inputs of the calculator are
  taken to be doubles, which \<^verbatim>\<open>float(...)\<close> leaves as they are, and the ints of a rule
  table to lie below \<open>2 ^ 53\<close>, where int arithmetic and double arithmetic agree.
  Infinities and NaN, and so results beyond the largest double, are not part of the
  model.
\<close>

definition round_half_even :: "rat \<Rightarrow> int" where
  "round_half_even x =
     (let f = \<lfloor>x\<rfloor>; d = x - of_int f
      in if d < 1 / 2 then f
         else if 1 / 2 < d then f + 1
         else if even f then f else f + 1)"

text \<open>\<open>pow2 e\<close> is \<open>2\<close> to the power \<open>e\<close>, for an exponent of either sign.\<close>

definition pow2 :: "int \<Rightarrow> rat" where
  "pow2 e = (if 0 \<le> e then 2 ^ nat e else 1 / 2 ^ nat (- e))"

text \<open>
  \<open>ilog2 x\<close> is the binary exponent of a positive \<open>x\<close>: the \<open>n\<close> with
  \<open>2 ^ n \<le> x < 2 ^ (n + 1)\<close>. It is found from the bit lengths of numerator and
  denominator (\<open>bitlen\<close>), which determine it up to one.
\<close>

definition ilog2 :: "rat \<Rightarrow> int" where
  "ilog2 x =
     (let (a, b) = quotient_of x;
          d = bitlen a - bitlen b
      in if pow2 d \<le> x then d else d - 1)"

text \<open>
  The nearest double. A double has a significand of 53 bits, so that the doubles next
  to \<open>x\<close> are the multiples of \<open>2 ^ e\<close> with \<open>e\<close> 52 below the binary exponent of
  \<open>x\<close>, and of \<open>2 ^ - 1074\<close> in the subnormal range; \<open>x\<close> is rounded to the nearest
  of them, a tie to the even multiple.
\<close>

definition fl :: "rat \<Rightarrow> rat" where
  "fl x =
     (if x = 0 then 0
      else let e = max (ilog2 \<bar>x\<bar> - 52) (- 1074)
           in of_int (round_half_even (x / pow2 e)) * pow2 e)"

definition fadd :: "rat \<Rightarrow> rat \<Rightarrow> rat" where
  "fadd x y = fl (x + y)"

definition fsub :: "rat \<Rightarrow> rat \<Rightarrow> rat" where
  "fsub x y = fl (x - y)"

definition fmul :: "rat \<Rightarrow> rat \<Rightarrow> rat" where
  "fmul x y = fl (x * y)"

definition fdiv :: "rat \<Rightarrow> rat \<Rightarrow> rat" where
  "fdiv x y = fl (x / y)"

text \<open>
  Python's \<^verbatim>\<open>round(x, 2)\<close> rounds the exact value of the double \<open>x\<close> to the nearest
  multiple of 0.01, a tie going to the even hundredth (\<open>round2\<close>), and returns the
  double nearest to that decimal figure.
\<close>

definition round2 :: "rat \<Rightarrow> rat" where
  "round2 x = of_int (round_half_even (x * 100)) / 100"

definition py_round2 :: "rat \<Rightarrow> rat" where
  "py_round2 x = fl (round2 x)"

text \<open>A figure with at most two decimal places: a whole number of hundredths.\<close>

definition two_decimals :: "rat \<Rightarrow> bool" where
  "two_decimals x = (of_int \<lfloor>x * 100\<rfloor> = x * 100)"

text \<open>
  \<open>r\<close> is \<open>u\<close> rounded to 2 decimals: the double nearest to a figure of two decimal
  places that lies within half a hundredth of \<open>u\<close>.
\<close>

definition rounded_to_2_decimals :: "rat \<Rightarrow> rat \<Rightarrow> bool" where
  "rounded_to_2_decimals u r =
     (two_decimals (round2 u) \<and> \<bar>round2 u - u\<bar> \<le> 1 / 200 \<and> r = fl (round2 u))"


text \<open>
  \<^verbatim>\<open>sum(values)\<close> starts at 0 and adds the values from the left. (This is the sum of
  CPython up to 3.11; from 3.12 on \<^verbatim>\<open>sum\<close> compensates the rounding errors of float
  terms, which changes nothing for fewer than three terms or for ints.)
\<close>

definition sum_values :: "rat list \<Rightarrow> rat" where
  "sum_values vs = foldl fadd 0 vs"

section \<open>Rule tables: the state data of \<^verbatim>\<open>core/calculator.py\<close>\<close>

text \<open>
  \<^verbatim>\<open>state_data\<close> is the dictionary read from the state's JSON file. Its keys become
  record fields; where two dictionaries use the same key, the field carries the name
  of the local variable the source reads it through (\<^verbatim>\<open>min_val\<close>, \<^verbatim>\<open>max_val\<close>,
  \<^verbatim>\<open>pf_data\<close>, \<^verbatim>\<open>esi_data\<close>, \<^verbatim>\<open>lwf_data\<close>) or a prefix. A slab's \<^verbatim>\<open>max\<close> is
  \<^verbatim>\<open>None\<close> for the open-ended slab.
\<close>

record slab =
  min_val :: rat
  max_val :: "rat option"
  tax :: rat

record professional_tax_rules =
  monthly_slabs :: "slab list"
  annual_ceiling :: rat

record provident_fund_rules =
  pf_employee_contribution_rate :: rat
  pf_employer_contribution_rate :: rat
  employer_pension_rate :: rat
  employer_epf_rate :: rat
  salary_ceiling :: rat
  admin_charges_rate :: rat
  edli_rate :: rat

record esi_rules =
  esi_employee_contribution_rate :: rat
  esi_employer_contribution_rate :: rat
  income_threshold :: rat
  minimum_wage_threshold :: rat

record labour_welfare_fund_rules =
  lwf_rule_employee_contribution :: rat
  lwf_rule_employer_contribution :: rat
  payment_frequency :: string

record state_data =
  state_name :: string
  pt_data :: professional_tax_rules
  pf_data :: provident_fund_rules
  esi_data :: esi_rules
  lwf_data :: labour_welfare_fund_rules

section \<open>The calculator\<close>

subsection \<open>Professional tax\<close>

text \<open>
  The loop of \<^verbatim>\<open>calculate_professional_tax\<close>: \<^verbatim>\<open>tax_amount\<close> starts at 0, the slabs
  are visited in list order and the first one that matches ends the loop. The test
  \<^verbatim>\<open>min_val <= monthly_salary <= max_val\<close> is only reached with \<^verbatim>\<open>max_val = None\<close>
  when \<^verbatim>\<open>monthly_salary < min_val\<close>, where its first comparison already fails.
\<close>

fun scan_slabs :: "rat \<Rightarrow> slab list \<Rightarrow> rat" where
  "scan_slabs monthly_salary [] = 0"
| "scan_slabs monthly_salary (sl # slabs) =
     (case max_val sl of
        None \<Rightarrow>
          if min_val sl \<le> monthly_salary then tax sl
          else scan_slabs monthly_salary slabs
      | Some m \<Rightarrow>
          if min_val sl \<le> monthly_salary \<and> monthly_salary \<le> m then tax sl
          else scan_slabs monthly_salary slabs)"

definition calculate_professional_tax :: "state_data \<Rightarrow> rat \<Rightarrow> rat" where
  "calculate_professional_tax sd monthly_salary =
     scan_slabs monthly_salary (monthly_slabs (pt_data sd))"

text \<open>The condition under which the loop takes a slab.\<close>

definition slab_matches :: "rat \<Rightarrow> slab \<Rightarrow> bool" where
  "slab_matches monthly_salary sl =
     (case max_val sl of
        None \<Rightarrow> min_val sl \<le> monthly_salary
      | Some m \<Rightarrow> min_val sl \<le> monthly_salary \<and> monthly_salary \<le> m)"

subsection \<open>Provident fund\<close>

record pf_details =
  pf_employee_contribution :: rat
  pf_employer_epf_contribution :: rat
  pf_employer_pension_contribution :: rat
  pf_admin_charges :: rat
  pf_edli_charges :: rat
  pf_total_employer_contribution :: rat
  pf_total_pf_contribution :: rat

definition calculate_provident_fund :: "state_data \<Rightarrow> rat \<Rightarrow> pf_details" where
  "calculate_provident_fund sd base_salary =
     (let pf = pf_data sd;
          pf_applicable_salary = min base_salary (salary_ceiling pf);
          employee_contribution =
            fmul pf_applicable_salary (fdiv (pf_employee_contribution_rate pf) 100);
          employer_epf = fmul pf_applicable_salary (fdiv (employer_epf_rate pf) 100);
          employer_pension =
            fmul pf_applicable_salary (fdiv (employer_pension_rate pf) 100);
          admin_charges = fmul pf_applicable_salary (fdiv (admin_charges_rate pf) 100);
          edli_charges = fmul pf_applicable_salary (fdiv (edli_rate pf) 100)
      in \<lparr> pf_employee_contribution = py_round2 employee_contribution,
           pf_employer_epf_contribution = py_round2 employer_epf,
           pf_employer_pension_contribution = py_round2 employer_pension,
           pf_admin_charges = py_round2 admin_charges,
           pf_edli_charges = py_round2 edli_charges,
           pf_total_employer_contribution =
             py_round2
               (fadd (fadd (fadd employer_epf employer_pension) admin_charges)
                  edli_charges),
           pf_total_pf_contribution =
             py_round2
               (fadd
                  (fadd (fadd (fadd employee_contribution employer_epf) employer_pension)
                     admin_charges)
                  edli_charges) \<rparr>)"

subsection \<open>Employee state insurance\<close>

record esi_details =
  applicable :: bool
  esi_employee_contribution :: rat
  esi_employer_contribution :: rat
  esi_total_contribution :: rat

definition calculate_esi :: "state_data \<Rightarrow> rat \<Rightarrow> esi_details" where
  "calculate_esi sd gross_salary =
     (let ed = esi_data sd
      in if gross_salary \<le> income_threshold ed then
           (let employee_contribution =
                  fmul gross_salary (fdiv (esi_employee_contribution_rate ed) 100);
                employer_contribution =
                  fmul gross_salary (fdiv (esi_employer_contribution_rate ed) 100)
            in \<lparr> applicable = True,
                 esi_employee_contribution = py_round2 employee_contribution,
                 esi_employer_contribution = py_round2 employer_contribution,
                 esi_total_contribution =
                   py_round2 (fadd employee_contribution employer_contribution) \<rparr>)
         else \<lparr> applicable = False,
                esi_employee_contribution = 0,
                esi_employer_contribution = 0,
                esi_total_contribution = 0 \<rparr>)"

subsection \<open>Labour welfare fund\<close>

record lwf_details =
  lwf_employee_contribution :: rat
  lwf_employer_contribution :: rat
  lwf_total_contribution :: rat
  lwf_payment_frequency :: string

text \<open>
  The divisor the source applies to both amounts: 6 under \<^verbatim>\<open>"semi-annual"\<close>, 12
  under \<^verbatim>\<open>"annual"\<close>, and no division under any other frequency.
\<close>

definition monthly_equivalent :: "string \<Rightarrow> rat \<Rightarrow> rat" where
  "monthly_equivalent frequency amount =
     (if frequency = ''semi-annual'' then fdiv amount 6
      else if frequency = ''annual'' then fdiv amount 12
      else amount)"

definition calculate_labour_welfare_fund :: "state_data \<Rightarrow> lwf_details" where
  "calculate_labour_welfare_fund sd =
     (let ld = lwf_data sd;
          employee_contribution =
            monthly_equivalent (payment_frequency ld) (lwf_rule_employee_contribution ld);
          employer_contribution =
            monthly_equivalent (payment_frequency ld) (lwf_rule_employer_contribution ld)
      in \<lparr> lwf_employee_contribution = py_round2 employee_contribution,
           lwf_employer_contribution = py_round2 employer_contribution,
           lwf_total_contribution =
             py_round2 (fadd employee_contribution employer_contribution),
           lwf_payment_frequency = payment_frequency ld \<rparr>)"

subsection \<open>Net salary\<close>

text \<open>
  The nested dictionary returned by \<^verbatim>\<open>calculate_net_salary\<close>. The monthly and the
  annual view have the same keys and share a record type. \<^verbatim>\<open>benefits\<close> is a
  dictionary in insertion order: an association list.
\<close>

record deductions =
  professional_tax :: rat
  pf_contribution :: rat
  esi_contribution :: rat
  labour_welfare_fund :: rat
  total_deductions :: rat

record employee_period =
  base_salary :: rat
  benefits :: "(string \<times> rat) list"
  gross_salary :: rat
  deductions :: deductions
  net_salary :: rat

record employee_details =
  monthly :: employee_period
  annual :: employee_period

record employer_pf_details =
  epf_contribution :: rat
  pension_contribution :: rat
  admin_charges :: rat
  edli_charges :: rat

record employer_period =
  pf_details :: employer_pf_details
  employer_esi_contribution :: rat
  employer_labour_welfare_fund :: rat
  total_contributions :: rat

record employer_contributions =
  employer_monthly :: employer_period
  employer_annual :: employer_period

record ctc_check =
  provided :: rat
  calculated :: rat
  difference :: rat

record compliance =
  state :: string
  esi_applicable :: bool
  professional_tax_applicable :: bool

record salary_breakdown =
  employee_details :: employee_details
  employer_contributions :: employer_contributions
  ctc :: ctc_check
  compliance :: compliance

definition calculate_net_salary ::
  "state_data \<Rightarrow> rat \<Rightarrow> rat \<Rightarrow> (string \<times> rat) list \<Rightarrow> salary_breakdown" where
  "calculate_net_salary sd ctc_in base_salary_in benefits_in =
     (let total_benefits = sum_values (map snd benefits_in);
          gross = fadd base_salary_in total_benefits;
          pt = calculate_professional_tax sd gross;
          pf = calculate_provident_fund sd base_salary_in;
          es = calculate_esi sd gross;
          lwf = calculate_labour_welfare_fund sd;
          total_ded =
            fadd
              (fadd (fadd pt (pf_employee_contribution pf)) (esi_employee_contribution es))
              (lwf_employee_contribution lwf);
          net = fsub gross total_ded;
          employer_contribs =
            fadd
              (fadd (pf_total_employer_contribution pf) (esi_employer_contribution es))
              (lwf_employer_contribution lwf);
          calculated_ctc = fmul (fadd gross employer_contribs) 12;
          ctc_difference = \<bar>fsub calculated_ctc ctc_in\<bar>;
          ceiling = annual_ceiling (pt_data sd)
      in \<lparr> employee_details =
             \<lparr> monthly =
                 \<lparr> base_salary = base_salary_in,
                   benefits = benefits_in,
                   gross_salary = gross,
                   deductions =
                     \<lparr> professional_tax = pt,
                       pf_contribution = pf_employee_contribution pf,
                       esi_contribution = esi_employee_contribution es,
                       labour_welfare_fund = lwf_employee_contribution lwf,
                       total_deductions = total_ded \<rparr>,
                   net_salary = net \<rparr>,
               annual =
                 \<lparr> base_salary = fmul base_salary_in 12,
                   benefits = map (\<lambda>(k, v). (k, fmul v 12)) benefits_in,
                   gross_salary = fmul gross 12,
                   deductions =
                     \<lparr> professional_tax = min (fmul pt 12) ceiling,
                       pf_contribution = fmul (pf_employee_contribution pf) 12,
                       esi_contribution = fmul (esi_employee_contribution es) 12,
                       labour_welfare_fund = fmul (lwf_employee_contribution lwf) 12,
                       total_deductions =
                         fadd
                           (fadd
                              (fadd (min (fmul pt 12) ceiling)
                                 (fmul (pf_employee_contribution pf) 12))
                              (fmul (esi_employee_contribution es) 12))
                           (fmul (lwf_employee_contribution lwf) 12) \<rparr>,
                   net_salary =
                     fsub
                       (fsub
                          (fsub
                             (fsub (fmul gross 12) (min (fmul pt 12) ceiling))
                             (fmul (pf_employee_contribution pf) 12))
                          (fmul (esi_employee_contribution es) 12))
                       (fmul (lwf_employee_contribution lwf) 12) \<rparr> \<rparr>,
           employer_contributions =
             \<lparr> employer_monthly =
                 \<lparr> pf_details =
                     \<lparr> epf_contribution = pf_employer_epf_contribution pf,
                       pension_contribution = pf_employer_pension_contribution pf,
                       admin_charges = pf_admin_charges pf,
                       edli_charges = pf_edli_charges pf \<rparr>,
                   employer_esi_contribution = esi_employer_contribution es,
                   employer_labour_welfare_fund = lwf_employer_contribution lwf,
                   total_contributions = employer_contribs \<rparr>,
               employer_annual =
                 \<lparr> pf_details =
                     \<lparr> epf_contribution = fmul (pf_employer_epf_contribution pf) 12,
                       pension_contribution = fmul (pf_employer_pension_contribution pf) 12,
                       admin_charges = fmul (pf_admin_charges pf) 12,
                       edli_charges = fmul (pf_edli_charges pf) 12 \<rparr>,
                   employer_esi_contribution = fmul (esi_employer_contribution es) 12,
                   employer_labour_welfare_fund = fmul (lwf_employer_contribution lwf) 12,
                   total_contributions = fmul employer_contribs 12 \<rparr> \<rparr>,
           ctc =
             \<lparr> provided = ctc_in,
               calculated = calculated_ctc,
               difference = ctc_difference \<rparr>,
           compliance =
             \<lparr> state = state_name sd,
               esi_applicable = applicable es,
               professional_tax_applicable = (0 < pt) \<rparr> \<rparr>)"

subsection \<open>The seeded rule tables\<close>

text \<open>
  The tables that \<^verbatim>\<open>scripts/data_loader.py\<close> writes for the two supported states;
  the fixture of \<^verbatim>\<open>tests/test_calculations.py\<close> holds the same Maharashtra table.
  The rates 8.33 and 3.67 are the doubles written so; every other number of the tables
  is a double as it stands.
\<close>

definition maharashtra :: state_data where
  "maharashtra =
     \<lparr> state_name = ''Maharashtra'',
       pt_data =
         \<lparr> monthly_slabs =
             [\<lparr> min_val = 0, max_val = Some 10000, tax = 0 \<rparr>,
              \<lparr> min_val = 10001, max_val = Some 15000, tax = 175 \<rparr>,
              \<lparr> min_val = 15001, max_val = Some 20000, tax = 200 \<rparr>,
              \<lparr> min_val = 20001, max_val = None, tax = 300 \<rparr>],
           annual_ceiling = 2500 \<rparr>,
       pf_data =
         \<lparr> pf_employee_contribution_rate = 12,
           pf_employer_contribution_rate = 12,
           employer_pension_rate = fl (833 / 100),
           employer_epf_rate = fl (367 / 100),
           salary_ceiling = 15000,
           admin_charges_rate = 1 / 2,
           edli_rate = 1 / 2 \<rparr>,
       esi_data =
         \<lparr> esi_employee_contribution_rate = 3 / 4,
           esi_employer_contribution_rate = 13 / 4,
           income_threshold = 21000,
           minimum_wage_threshold = 137 \<rparr>,
       lwf_data =
         \<lparr> lwf_rule_employee_contribution = 6,
           lwf_rule_employer_contribution = 12,
           payment_frequency = ''semi-annual'' \<rparr> \<rparr>"

definition karnataka :: state_data where
  "karnataka =
     \<lparr> state_name = ''Karnataka'',
       pt_data =
         \<lparr> monthly_slabs =
             [\<lparr> min_val = 0, max_val = Some 15000, tax = 0 \<rparr>,
              \<lparr> min_val = 15001, max_val = Some 25000, tax = 200 \<rparr>,
              \<lparr> min_val = 25001, max_val = None, tax = 300 \<rparr>],
           annual_ceiling = 2400 \<rparr>,
       pf_data =
         \<lparr> pf_employee_contribution_rate = 12,
           pf_employer_contribution_rate = 12,
           employer_pension_rate = fl (833 / 100),
           employer_epf_rate = fl (367 / 100),
           salary_ceiling = 15000,
           admin_charges_rate = 1 / 2,
           edli_rate = 1 / 2 \<rparr>,
       esi_data =
         \<lparr> esi_employee_contribution_rate = 3 / 4,
           esi_employer_contribution_rate = 13 / 4,
           income_threshold = 21000,
           minimum_wage_threshold = 142 \<rparr>,
       lwf_data =
         \<lparr> lwf_rule_employee_contribution = 20,
           lwf_rule_employer_contribution = 40,
           payment_frequency = ''annual'' \<rparr> \<rparr>"

subsection \<open>Well-formed slab tables\<close>





section \<open>The validator of \<^verbatim>\<open>core/validator.py\<close>\<close>

text \<open>
  The validator compares and adds salary figures; its quotient \<^verbatim>\<open>ctc / 12\<close> and its
  sums are kept exact here. This agrees with the doubles except for a gross salary
  within rounding error of \<open>ctc / 12 + 1\<close>.

  Every failure of the validator is a \<^verbatim>\<open>ValueError\<close>; its message tells the failures
  apart, and the constructors below stand for the messages, with the values the
  message is formatted from:
  \<^item> \<open>CtcNotPositive\<close>: \<^verbatim>\<open>CTC must be positive\<close>;
  \<^item> \<open>BaseSalaryNotPositive\<close>: \<^verbatim>\<open>Base salary must be positive\<close>;
  \<^item> \<open>BenefitNegative name\<close>: \<^verbatim>\<open>Benefit 'name' cannot be negative\<close>;
  \<^item> \<open>GrossExceedsCtc gross monthly_ctc\<close>: \<^verbatim>\<open>Total monthly gross salary (gross)
    exceeds monthly CTC (monthly_ctc). ...\<close>;
  \<^item> \<open>RequiredFieldMissing field\<close>: \<^verbatim>\<open>Required field 'field' is missing\<close>;
  \<^item> \<open>LocationNotAllowed location allowed\<close>: \<^verbatim>\<open>Location 'location' is not in allowed
    states. Allowed states are: ...\<close>.
  \<open>KeyError\<close> is the exception of a dictionary read at an absent key.
\<close>

datatype validation_error =
    CtcNotPositive
  | BaseSalaryNotPositive
  | BenefitNegative string
  | GrossExceedsCtc rat rat
  | RequiredFieldMissing string
  | LocationNotAllowed string "string list"
  | KeyError string

text \<open>\<^verbatim>\<open>str.lower\<close>, on ASCII letters.\<close>

definition lower_char :: "char \<Rightarrow> char" where
  "lower_char c =
     (let n = (of_char c :: nat)
      in if 65 \<le> n \<and> n \<le> 90 then char_of (n + 32) else c)"

definition lower :: "string \<Rightarrow> string" where
  "lower s = map lower_char s"

definition validate_location :: "string list \<Rightarrow> string \<Rightarrow> validation_error + string" where
  "validate_location allowed_states location =
     (let location = lower location
      in if location \<notin> set allowed_states
         then Inl (LocationNotAllowed location allowed_states)
         else Inr location)"

text \<open>
  The loop over \<^verbatim>\<open>benefits.items()\<close>: the name of the first negative benefit in
  insertion order, if there is one.
\<close>

fun negative_benefit :: "(string \<times> rat) list \<Rightarrow> string option" where
  "negative_benefit [] = None"
| "negative_benefit ((benefit_name, benefit_value) # items) =
     (if benefit_value < 0 then Some benefit_name else negative_benefit items)"

definition validate_salary ::
  "rat \<Rightarrow> rat \<Rightarrow> (string \<times> rat) list \<Rightarrow> validation_error + bool" where
  "validate_salary ctc_in base_salary_in benefits_in =
     (if ctc_in \<le> 0 then Inl CtcNotPositive
      else if base_salary_in \<le> 0 then Inl BaseSalaryNotPositive
      else case negative_benefit benefits_in of
             Some benefit_name \<Rightarrow> Inl (BenefitNegative benefit_name)
           | None \<Rightarrow>
               (let monthly_ctc = ctc_in / 12;
                    total_benefits = sum_list (map snd benefits_in);
                    gross = base_salary_in + total_benefits
                in if monthly_ctc + 1 < gross
                   then Inl (GrossExceedsCtc gross monthly_ctc)
                   else Inr True))"

text \<open>
  \<^verbatim>\<open>employee_data\<close> is a dictionary in which any of the four keys the validator reads
  may be absent; the keys it does not read are the extension of the record.
\<close>

record employee_data =
  ctc_field :: "rat option"
  base_salary_field :: "rat option"
  location_field :: "string option"
  benefits_field :: "(string \<times> rat) list option"

definition has_field :: "'a employee_data_scheme \<Rightarrow> string \<Rightarrow> bool" where
  "has_field ed field =
     (if field = ''ctc'' then ctc_field ed \<noteq> None
      else if field = ''base_salary'' then base_salary_field ed \<noteq> None
      else if field = ''location'' then location_field ed \<noteq> None
      else if field = ''benefits'' then benefits_field ed \<noteq> None
      else False)"

definition required_fields :: "string list" where
  "required_fields = [''ctc'', ''base_salary'', ''location'']"

text \<open>The loop over \<^verbatim>\<open>required_fields\<close>: the first field that is absent.\<close>

fun missing_field :: "'a employee_data_scheme \<Rightarrow> string list \<Rightarrow> string option" where
  "missing_field ed [] = None"
| "missing_field ed (field # rest) =
     (if \<not> has_field ed field then Some field else missing_field ed rest)"

definition read_field :: "string \<Rightarrow> 'v option \<Rightarrow> validation_error + 'v" where
  "read_field field v = (case v of None \<Rightarrow> Inl (KeyError field) | Some x \<Rightarrow> Inr x)"

definition validate_employee_data ::
  "string list \<Rightarrow> 'a employee_data_scheme \<Rightarrow> validation_error + 'a employee_data_scheme" where
  "validate_employee_data allowed_states ed =
     (case missing_field ed required_fields of
        Some field \<Rightarrow> Inl (RequiredFieldMissing field)
      | None \<Rightarrow>
          (case read_field ''ctc'' (ctc_field ed) of
             Inl e \<Rightarrow> Inl e
           | Inr ctc_in \<Rightarrow>
          (case read_field ''base_salary'' (base_salary_field ed) of
             Inl e \<Rightarrow> Inl e
           | Inr base_salary_in \<Rightarrow>
          (case read_field ''location'' (location_field ed) of
             Inl e \<Rightarrow> Inl e
           | Inr location \<Rightarrow>
          (let benefits_in = (case benefits_field ed of None \<Rightarrow> [] | Some b \<Rightarrow> b)
           in case validate_location allowed_states location of
                Inl e \<Rightarrow> Inl e
              | Inr normalized_location \<Rightarrow>
                  (case validate_salary ctc_in base_salary_in benefits_in of
                     Inl e \<Rightarrow> Inl e
                   | Inr _ \<Rightarrow> Inr (ed\<lparr>location_field := Some normalized_location\<rparr>)))))))"

text \<open>The allow-list a validator is built with by default, and by the tests.\<close>

definition default_allowed_states :: "string list" where
  "default_allowed_states = [''maharashtra'', ''karnataka'']"

section \<open>Properties of the double rounding\<close>

lemma round_half_even_error: "\<bar>of_int (round_half_even x) - x\<bar> \<le> 1 / 2"
proof -
  have lo: "of_int \<lfloor>x\<rfloor> \<le> x" and hi: "x < of_int \<lfloor>x\<rfloor> + 1"
    by linarith+
  show ?thesis
    unfolding round_half_even_def Let_def using lo hi
    by (simp add: abs_le_iff)
qed

lemma round2_error: "\<bar>round2 x - x\<bar> \<le> 1 / 200"
proof -
  have "\<bar>of_int (round_half_even (x * 100)) - x * 100\<bar> \<le> 1 / 2"
    by (rule round_half_even_error)
  then show ?thesis
    unfolding round2_def by (simp add: field_simps abs_le_iff)
qed

lemma two_decimals_round2: "two_decimals (round2 x)"
  by (simp add: two_decimals_def round2_def)

lemma rounded_py_round2: "rounded_to_2_decimals u (py_round2 u)"
  unfolding rounded_to_2_decimals_def py_round2_def
  by (intro conjI two_decimals_round2 round2_error refl)

lemma round_half_even_near:
  assumes "\<bar>y - of_int m\<bar> < 1 / 2"
  shows "round_half_even y = m"
proof (cases "of_int m \<le> y")
  case True
  then have "\<lfloor>y\<rfloor> = m" using assms by linarith
  then show ?thesis
    using assms True by (simp add: round_half_even_def Let_def)
next
  case False
  then have f: "\<lfloor>y\<rfloor> = m - 1" using assms by linarith
  have "1 / 2 < y - of_int (m - 1)" using assms False by simp
  then show ?thesis
    using False by (simp add: round_half_even_def Let_def f)
qed

lemma round_half_even_tie:
  assumes "y = of_int m + 1 / 2"
  shows "round_half_even y = (if even m then m else m + 1)"
proof -
  have "\<lfloor>y\<rfloor> = m" using assms by linarith
  then show ?thesis
    using assms by (simp add: round_half_even_def Let_def)
qed

subsection \<open>Powers of two and the binary exponent\<close>

lemma pow2_powi: "pow2 e = 2 powi e"
  by (simp add: pow2_def power_int_def field_simps)

lemma pow2_pos: "0 < pow2 e"
  by (simp add: pow2_powi)

lemma pow2_mono: "a \<le> b \<Longrightarrow> pow2 a \<le> pow2 b"
  by (simp add: pow2_powi power_int_increasing)

lemma pow2_strict_mono: "a < b \<Longrightarrow> pow2 a < pow2 b"
  by (simp add: pow2_powi power_int_strict_increasing)

lemma pow2_less_iff: "pow2 a < pow2 b \<longleftrightarrow> a < b"
proof
  assume "pow2 a < pow2 b"
  show "a < b"
  proof (rule ccontr)
    assume "\<not> a < b"
    then have "pow2 b \<le> pow2 a" by (simp add: pow2_mono)
    with \<open>pow2 a < pow2 b\<close> show False by simp
  qed
qed (rule pow2_strict_mono)

lemma pow2_nat: "pow2 (int n) = 2 ^ n"
  by (simp add: pow2_def)

lemma pow2_diff: "pow2 (a - b) = pow2 a / pow2 b"
  by (simp add: pow2_powi power_int_diff)

lemma pow2_numeral [simp]: "pow2 (numeral k) = 2 ^ numeral k"
  by (simp add: pow2_def)

lemma pow2_neg_numeral [simp]: "pow2 (- numeral k) = 1 / 2 ^ numeral k"
  by (simp add: pow2_def)

lemma pow2_0 [simp]: "pow2 0 = 1"
  by (simp add: pow2_def)

lemma pow2_1 [simp]: "pow2 1 = 2"
  by (simp add: pow2_def)

lemma pow2_minus_1 [simp]: "pow2 (- 1) = 1 / 2"
  by (simp add: pow2_def)

lemma bit_bounds:
  assumes "0 < a"
  shows "pow2 (int (floorlog 2 (nat a)) - 1) \<le> of_int a"
    and "of_int a < pow2 (int (floorlog 2 (nat a)))"
proof -
  define l where "l = floorlog 2 (nat a)"
  have pos: "0 < nat a" using assms by simp
  from floorlog_bounds [OF pos, of 2]
  have lo: "2 ^ (l - 1) \<le> nat a" and hi: "nat a < 2 ^ l"
    by (simp_all add: l_def)
  have l1: "1 \<le> l"
    using pos by (simp add: l_def floorlog_def)
  have a: "(of_int a :: rat) = of_nat (nat a)"
    using assms by simp
  have "(2 :: rat) ^ (l - 1) \<le> of_nat (nat a)"
    using lo by (metis of_nat_le_iff of_nat_numeral of_nat_power)
  moreover have "pow2 (int l - 1) = 2 ^ (l - 1)"
    using l1 pow2_nat [of "l - 1"] by (simp add: of_nat_diff)
  ultimately show "pow2 (int (floorlog 2 (nat a)) - 1) \<le> of_int a"
    by (simp only: a l_def)
  have "of_nat (nat a) < (2 :: rat) ^ l"
    using hi by (metis of_nat_less_iff of_nat_numeral of_nat_power)
  then show "of_int a < pow2 (int (floorlog 2 (nat a)))"
    by (simp only: a l_def pow2_nat)
qed

lemma ilog2_bounds:
  assumes "0 < x"
  shows "pow2 (ilog2 x) \<le> x" and "x < pow2 (ilog2 x + 1)"
proof -
  obtain a b where q: "quotient_of x = (a, b)" by (cases "quotient_of x")
  have b: "0 < b" using q by (rule quotient_of_denom_pos)
  have x: "x = of_int a / of_int b" using q by (rule quotient_of_div)
  have a: "0 < a"
    using assms b x by (simp add: zero_less_divide_iff)
  define d where "d = int (floorlog 2 (nat a)) - int (floorlog 2 (nat b))"
  note ba = bit_bounds [OF a] and bb = bit_bounds [OF b]
  have bpos: "(0 :: rat) < of_int b" using b by simp
  have lo: "pow2 (d - 1) \<le> x"
  proof -
    have "pow2 (d - 1) = pow2 (int (floorlog 2 (nat a)) - 1) / pow2 (int (floorlog 2 (nat b)))"
      by (simp add: d_def pow2_diff [symmetric] algebra_simps)
    also have "\<dots> \<le> of_int a / pow2 (int (floorlog 2 (nat b)))"
      by (rule divide_right_mono [OF ba(1) less_imp_le [OF pow2_pos]])
    also have "\<dots> \<le> of_int a / of_int b"
      by (rule frac_le) (use a bpos bb(2) in simp_all)
    finally show ?thesis by (simp add: x)
  qed
  have hi: "x < pow2 (d + 1)"
  proof -
    have "x = of_int a / of_int b" by (rule x)
    also have "\<dots> < pow2 (int (floorlog 2 (nat a))) / of_int b"
      by (rule divide_strict_right_mono [OF ba(2) bpos])
    also have "\<dots> \<le> pow2 (int (floorlog 2 (nat a))) / pow2 (int (floorlog 2 (nat b)) - 1)"
      by (rule frac_le)
        (use bb(1) pow2_pos [of "int (floorlog 2 (nat b)) - 1"]
          pow2_pos [of "int (floorlog 2 (nat a))"] in simp_all)
    also have "\<dots> = pow2 (d + 1)"
      by (simp add: d_def pow2_diff [symmetric] algebra_simps)
    finally show ?thesis .
  qed
  have i: "ilog2 x = (if pow2 d \<le> x then d else d - 1)"
    by (simp add: ilog2_def q d_def Let_def bitlen_def)
  show "pow2 (ilog2 x) \<le> x"
    using lo by (simp add: i)
  show "x < pow2 (ilog2 x + 1)"
    using hi by (auto simp add: i)
qed

lemma ilog2_unique:
  assumes "pow2 n \<le> x" "x < pow2 (n + 1)"
  shows "ilog2 x = n"
proof -
  have pos: "0 < x" using assms(1) pow2_pos [of n] by simp
  note b = ilog2_bounds [OF pos]
  have "pow2 n < pow2 (ilog2 x + 1)" using assms(1) b(2) by simp
  then have 1: "n < ilog2 x + 1" by (simp only: pow2_less_iff)
  have "pow2 (ilog2 x) < pow2 (n + 1)" using assms(2) b(1) by simp
  then have 2: "ilog2 x < n + 1" by (simp only: pow2_less_iff)
  from 1 2 show ?thesis by simp
qed

subsection \<open>Evaluating the rounding\<close>

text \<open>
  The nearest double of a given \<open>x\<close> is determined by its binary exponent \<open>n\<close> and
  the integer \<open>m\<close> nearest to \<open>x / 2 ^ e\<close>; with both at hand, \<open>fl x\<close> is checked
  by comparisons of rationals.
\<close>

lemma fl_near:
  assumes "pow2 n \<le> \<bar>x\<bar>" "\<bar>x\<bar> < pow2 (n + 1)" "e = max (n - 52) (- 1074)"
    "\<bar>x / pow2 e - of_int m\<bar> < 1 / 2" "r = of_int m * pow2 e"
  shows "fl x = r"
proof -
  have nz: "x \<noteq> 0" using assms(1) pow2_pos [of n] by auto
  have "ilog2 \<bar>x\<bar> = n" using assms(1,2) by (rule ilog2_unique)
  then have "fl x = of_int (round_half_even (x / pow2 e)) * pow2 e"
    using nz by (simp add: fl_def Let_def assms(3))
  also have "round_half_even (x / pow2 e) = m"
    using assms(4) by (rule round_half_even_near)
  finally show ?thesis by (simp add: assms(5))
qed


lemma py_round2_near:
  assumes "\<bar>x * 100 - of_int k\<bar> < 1 / 2" "fl (of_int k / 100) = r"
  shows "py_round2 x = r"
proof -
  have "round_half_even (x * 100) = k"
    using assms(1) by (rule round_half_even_near)
  then show ?thesis
    by (simp add: py_round2_def round2_def assms(2))
qed

lemma py_round2_tie_even:
  assumes "x * 100 = of_int k + 1 / 2" "even k" "fl (of_int k / 100) = r"
  shows "py_round2 x = r"
proof -
  have "round_half_even (x * 100) = k"
    using round_half_even_tie [OF assms(1)] assms(2) by simp
  then show ?thesis
    by (simp add: py_round2_def round2_def assms(3))
qed

lemma py_round2_tie_odd:
  assumes "x * 100 = of_int k + 1 / 2" "odd k" "fl (of_int (k + 1) / 100) = r"
  shows "py_round2 x = r"
proof -
  have "round_half_even (x * 100) = k + 1"
    using round_half_even_tie [OF assms(1)] assms(2) by simp
  then show ?thesis
    by (simp only: py_round2_def round2_def assms(3))
qed

subsection \<open>Rounded figures are fixed by the rounding\<close>

lemma fl_half_ulp:
  assumes "x \<noteq> 0"
  shows "\<bar>fl x - x\<bar> \<le> pow2 (max (ilog2 \<bar>x\<bar> - 52) (- 1074)) / 2"
proof -
  define e where "e = max (ilog2 \<bar>x\<bar> - 52) (- 1074)"
  have p: "0 < pow2 e" by (rule pow2_pos)
  have f: "fl x = of_int (round_half_even (x / pow2 e)) * pow2 e"
    using assms by (simp add: fl_def Let_def e_def)
  have "\<bar>of_int (round_half_even (x / pow2 e)) - x / pow2 e\<bar> \<le> 1 / 2"
    by (rule round_half_even_error)
  then have "\<bar>of_int (round_half_even (x / pow2 e)) - x / pow2 e\<bar> * pow2 e \<le> 1 / 2 * pow2 e"
    using p by (simp add: mult_right_mono)
  moreover have "\<bar>of_int (round_half_even (x / pow2 e)) - x / pow2 e\<bar> * pow2 e =
      \<bar>of_int (round_half_even (x / pow2 e)) * pow2 e - x\<bar>"
  proof -
    have "\<bar>of_int (round_half_even (x / pow2 e)) - x / pow2 e\<bar> * pow2 e =
        \<bar>(of_int (round_half_even (x / pow2 e)) - x / pow2 e) * pow2 e\<bar>"
      using p by (simp add: abs_mult)
    also have "(of_int (round_half_even (x / pow2 e)) - x / pow2 e) * pow2 e =
        of_int (round_half_even (x / pow2 e)) * pow2 e - x"
      using p by (simp add: left_diff_distrib)
    finally show ?thesis .
  qed
  ultimately show ?thesis
    by (simp add: f e_def [symmetric])
qed

lemma fl_error_small:
  assumes "\<bar>x\<bar> < pow2 41"
  shows "\<bar>fl x - x\<bar> \<le> pow2 (- 13)"
proof (cases "x = 0")
  case True
  then show ?thesis by (simp add: fl_def)
next
  case False
  then have pos: "0 < \<bar>x\<bar>" by simp
  have "pow2 (ilog2 \<bar>x\<bar>) < pow2 41"
    using ilog2_bounds(1) [OF pos] assms by simp
  then have "ilog2 \<bar>x\<bar> < 41" by (simp only: pow2_less_iff)
  then have "max (ilog2 \<bar>x\<bar> - 52) (- 1074) \<le> - 12" by simp
  then have "pow2 (max (ilog2 \<bar>x\<bar> - 52) (- 1074)) \<le> pow2 (- 12)"
    by (rule pow2_mono)
  then have "pow2 (max (ilog2 \<bar>x\<bar> - 52) (- 1074)) / 2 \<le> pow2 (- 13)"
    by simp
  with fl_half_ulp [OF False] show ?thesis by simp
qed

lemma py_round2_fixed:
  assumes "two_decimals c" "\<bar>c\<bar> < pow2 41"
  shows "py_round2 (fl c) = fl c"
proof -
  have k: "of_int \<lfloor>c * 100\<rfloor> = c * 100"
    using assms(1) unfolding two_decimals_def .
  have "\<bar>fl c - c\<bar> \<le> pow2 (- 13)"
    using assms(2) by (rule fl_error_small)
  then have "\<bar>fl c - c\<bar> * 100 < 1 / 2" by simp
  moreover have "\<bar>fl c * 100 - c * 100\<bar> = \<bar>fl c - c\<bar> * 100"
  proof -
    have "fl c * 100 - c * 100 = (fl c - c) * 100" by simp
    then show ?thesis by (simp only: abs_mult)
  qed
  ultimately have "\<bar>fl c * 100 - of_int \<lfloor>c * 100\<rfloor>\<bar> < 1 / 2"
    by (simp only: k)
  then have "round_half_even (fl c * 100) = \<lfloor>c * 100\<rfloor>"
    by (rule round_half_even_near)
  then have "round2 (fl c) = c"
    unfolding round2_def using k by simp
  then show ?thesis
    by (simp add: py_round2_def)
qed

lemma rounded_figure_fixed:
  assumes "rounded_to_2_decimals u r" "\<bar>u\<bar> < 2 ^ 40"
  shows "py_round2 r = r"
proof -
  from assms(1) have t: "two_decimals (round2 u)" and e: "\<bar>round2 u - u\<bar> \<le> 1 / 200"
    and r: "r = fl (round2 u)"
    by (simp_all add: rounded_to_2_decimals_def)
  have "\<bar>round2 u\<bar> \<le> \<bar>u\<bar> + 1 / 200" using e by linarith
  also have "\<dots> < 2 ^ 41" using assms(2) by simp
  finally have "\<bar>round2 u\<bar> < pow2 41" by simp
  with t show ?thesis unfolding r by (rule py_round2_fixed)
qed

subsection \<open>The figures the calculator rounds\<close>





section \<open>Properties of the slab scan\<close>

lemma scan_slabs_find:
  "scan_slabs s slabs =
     (case find (slab_matches s) slabs of None \<Rightarrow> 0 | Some sl \<Rightarrow> tax sl)"
  by (induction slabs) (auto simp: slab_matches_def split: option.splits)










section \<open>Properties of the calculator\<close>

text \<open>
  C1. \<^verbatim>\<open>calculate_provident_fund\<close> applies each of the five rates to the smaller of
  the base salary and the salary ceiling and rounds each of the five results to 2
  decimals on its own. The two totals are not the sums of the rounded components:
  \<^verbatim>\<open>total_employer_contribution\<close> is the sum of the four unrounded employer components,
  rounded once, and \<^verbatim>\<open>total_pf_contribution\<close> the sum of the five unrounded
  components, rounded once.
\<close>

theorem provident_fund_rounding:
  "pf_employee_contribution (calculate_provident_fund sd base) =
     py_round2
       (fmul (min base (salary_ceiling (pf_data sd)))
          (fdiv (pf_employee_contribution_rate (pf_data sd)) 100))
   \<and> rounded_to_2_decimals
       (fmul (min base (salary_ceiling (pf_data sd)))
          (fdiv (pf_employee_contribution_rate (pf_data sd)) 100))
       (pf_employee_contribution (calculate_provident_fund sd base))
   \<and> pf_employer_epf_contribution (calculate_provident_fund sd base) =
     py_round2
       (fmul (min base (salary_ceiling (pf_data sd)))
          (fdiv (employer_epf_rate (pf_data sd)) 100))
   \<and> rounded_to_2_decimals
       (fmul (min base (salary_ceiling (pf_data sd)))
          (fdiv (employer_epf_rate (pf_data sd)) 100))
       (pf_employer_epf_contribution (calculate_provident_fund sd base))
   \<and> pf_employer_pension_contribution (calculate_provident_fund sd base) =
     py_round2
       (fmul (min base (salary_ceiling (pf_data sd)))
          (fdiv (employer_pension_rate (pf_data sd)) 100))
   \<and> rounded_to_2_decimals
       (fmul (min base (salary_ceiling (pf_data sd)))
          (fdiv (employer_pension_rate (pf_data sd)) 100))
       (pf_employer_pension_contribution (calculate_provident_fund sd base))
   \<and> pf_admin_charges (calculate_provident_fund sd base) =
     py_round2
       (fmul (min base (salary_ceiling (pf_data sd)))
          (fdiv (admin_charges_rate (pf_data sd)) 100))
   \<and> rounded_to_2_decimals
       (fmul (min base (salary_ceiling (pf_data sd)))
          (fdiv (admin_charges_rate (pf_data sd)) 100))
       (pf_admin_charges (calculate_provident_fund sd base))
   \<and> pf_edli_charges (calculate_provident_fund sd base) =
     py_round2
       (fmul (min base (salary_ceiling (pf_data sd)))
          (fdiv (edli_rate (pf_data sd)) 100))
   \<and> rounded_to_2_decimals
       (fmul (min base (salary_ceiling (pf_data sd)))
          (fdiv (edli_rate (pf_data sd)) 100))
       (pf_edli_charges (calculate_provident_fund sd base))
   \<and> pf_total_employer_contribution (calculate_provident_fund sd base) =
     py_round2
       (fadd
          (fadd
             (fadd
                (fmul (min base (salary_ceiling (pf_data sd)))
                (fdiv (employer_epf_rate (pf_data sd)) 100))
                (fmul (min base (salary_ceiling (pf_data sd)))
                (fdiv (employer_pension_rate (pf_data sd)) 100)))
             (fmul (min base (salary_ceiling (pf_data sd)))
             (fdiv (admin_charges_rate (pf_data sd)) 100)))
          (fmul (min base (salary_ceiling (pf_data sd)))
          (fdiv (edli_rate (pf_data sd)) 100)))
   \<and> rounded_to_2_decimals
       (fadd
          (fadd
             (fadd
                (fmul (min base (salary_ceiling (pf_data sd)))
                (fdiv (employer_epf_rate (pf_data sd)) 100))
                (fmul (min base (salary_ceiling (pf_data sd)))
                (fdiv (employer_pension_rate (pf_data sd)) 100)))
             (fmul (min base (salary_ceiling (pf_data sd)))
             (fdiv (admin_charges_rate (pf_data sd)) 100)))
          (fmul (min base (salary_ceiling (pf_data sd)))
          (fdiv (edli_rate (pf_data sd)) 100)))
       (pf_total_employer_contribution (calculate_provident_fund sd base))
   \<and> pf_total_pf_contribution (calculate_provident_fund sd base) =
     py_round2
       (fadd
          (fadd
             (fadd
                (fadd
                   (fmul (min base (salary_ceiling (pf_data sd)))
                   (fdiv (pf_employee_contribution_rate (pf_data sd)) 100))
                   (fmul (min base (salary_ceiling (pf_data sd)))
                   (fdiv (employer_epf_rate (pf_data sd)) 100)))
                (fmul (min base (salary_ceiling (pf_data sd)))
                (fdiv (employer_pension_rate (pf_data sd)) 100)))
             (fmul (min base (salary_ceiling (pf_data sd)))
             (fdiv (admin_charges_rate (pf_data sd)) 100)))
          (fmul (min base (salary_ceiling (pf_data sd)))
          (fdiv (edli_rate (pf_data sd)) 100)))
   \<and> rounded_to_2_decimals
       (fadd
          (fadd
             (fadd
                (fadd
                   (fmul (min base (salary_ceiling (pf_data sd)))
                   (fdiv (pf_employee_contribution_rate (pf_data sd)) 100))
                   (fmul (min base (salary_ceiling (pf_data sd)))
                   (fdiv (employer_epf_rate (pf_data sd)) 100)))
                (fmul (min base (salary_ceiling (pf_data sd)))
                (fdiv (employer_pension_rate (pf_data sd)) 100)))
             (fmul (min base (salary_ceiling (pf_data sd)))
             (fdiv (admin_charges_rate (pf_data sd)) 100)))
          (fmul (min base (salary_ceiling (pf_data sd)))
          (fdiv (edli_rate (pf_data sd)) 100)))
       (pf_total_pf_contribution (calculate_provident_fund sd base))"
  by (simp add: calculate_provident_fund_def Let_def rounded_py_round2)

text \<open>
  At a base salary of 12000.28 on the Maharashtra table the rounded employer
  components are 440.41, 999.62, 60.0 and 60.0, which add up to 1560.03, and the
  employee component is 1440.03, which makes 3000.06 with them; the totals returned are
  1560.04 and 3000.07.
\<close>

theorem provident_fund_totals_counterexample:
  "pf_employer_epf_contribution (calculate_provident_fund maharashtra (fl (1200028 / 100))) = fl (44041 / 100)
   \<and> pf_employer_pension_contribution (calculate_provident_fund maharashtra (fl (1200028 / 100))) = fl (99962 / 100)
   \<and> pf_admin_charges (calculate_provident_fund maharashtra (fl (1200028 / 100))) = 60
   \<and> pf_edli_charges (calculate_provident_fund maharashtra (fl (1200028 / 100))) = 60
   \<and> fadd (fadd (fadd (fl (44041 / 100)) (fl (99962 / 100))) 60) 60 = fl (156003 / 100)
   \<and> pf_total_employer_contribution (calculate_provident_fund maharashtra (fl (1200028 / 100))) = fl (156004 / 100)
   \<and> fl (156004 / 100) \<noteq> fl (156003 / 100)
   \<and> pf_employee_contribution (calculate_provident_fund maharashtra (fl (1200028 / 100))) = fl (144003 / 100)
   \<and> fadd (fadd (fadd (fadd (fl (144003 / 100)) (fl (44041 / 100))) (fl (99962 / 100))) 60) 60 = fl (300006 / 100)
   \<and> pf_total_pf_contribution (calculate_provident_fund maharashtra (fl (1200028 / 100))) = fl (300007 / 100)
   \<and> fl (300007 / 100) \<noteq> fl (300006 / 100)"
proof -
  have e1: "fl (300007 / 25) = 6597223698283889 / 549755813888"
    by (rule fl_near [where n = "13" and e = "- 39" and m = "6597223698283889"]) simp_all
  have e2: "fl (833 / 100) = 4689373111999529 / 562949953421312"
    by (rule fl_near [where n = "3" and e = "- 49" and m = "4689373111999529"]) simp_all
  have e3: "fl (367 / 100) = 2066026329056215 / 562949953421312"
    by (rule fl_near [where n = "1" and e = "- 51" and m = "8264105316224860"]) simp_all
  have e4: "fdiv 12 100 = 1080863910568919 / 9007199254740992"
    unfolding fdiv_def
    by (rule fl_near [where n = "- 4" and e = "- 56" and m = "8646911284551352"]) simp_all
  have e5: "fdiv (2066026329056215 / 562949953421312) 100 = 2644513701191955 / 72057594037927936"
    unfolding fdiv_def
    by (rule fl_near [where n = "- 5" and e = "- 57" and m = "5289027402383910"]) simp_all
  have e6: "fdiv (4689373111999529 / 562949953421312) 100 = 6002397583359397 / 72057594037927936"
    unfolding fdiv_def
    by (rule fl_near [where n = "- 4" and e = "- 56" and m = "6002397583359397"]) simp_all
  have e7: "fdiv (1 / 2) 100 = 5764607523034235 / 1152921504606846976"
    unfolding fdiv_def
    by (rule fl_near [where n = "- 8" and e = "- 60" and m = "5764607523034235"]) simp_all
  have e8: "fmul (6597223698283889 / 549755813888) (1080863910568919 / 9007199254740992) = 6333334750352533 / 4398046511104"
    unfolding fmul_def
    by (rule fl_near [where n = "10" and e = "- 42" and m = "6333334750352533"]) simp_all
  have e9: "fmul (6597223698283889 / 549755813888) (2644513701191955 / 72057594037927936) = 7747779511264599 / 17592186044416"
    unfolding fmul_def
    by (rule fl_near [where n = "8" and e = "- 44" and m = "7747779511264599"]) simp_all
  have e10: "fmul (6597223698283889 / 549755813888) (6002397583359397 / 72057594037927936) = 8792779745072767 / 8796093022208"
    unfolding fmul_def
    by (rule fl_near [where n = "9" and e = "- 43" and m = "8792779745072767"]) simp_all
  have e11: "fmul (6597223698283889 / 549755813888) (5764607523034235 / 1152921504606846976) = 4222223166901689 / 70368744177664"
    unfolding fmul_def
    by (rule fl_near [where n = "5" and e = "- 47" and m = "8444446333803378"]) simp_all
  have e12: "py_round2 (6333334750352533 / 4398046511104) = 6333318917385093 / 4398046511104"
    by (rule py_round2_near [where k = "144003"], simp,
          rule fl_near [where n = "10" and e = "- 42" and m = "6333318917385093"]) simp_all
  have e13: "py_round2 (7747779511264599 / 17592186044416) = 7747774655821251 / 17592186044416"
    by (rule py_round2_near [where k = "44041"], simp,
          rule fl_near [where n = "8" and e = "- 44" and m = "7747774655821251"]) simp_all
  have e14: "py_round2 (8792779745072767 / 8796093022208) = 8792750506859561 / 8796093022208"
    by (rule py_round2_near [where k = "99962"], simp,
          rule fl_near [where n = "9" and e = "- 43" and m = "8792750506859561"]) simp_all
  have e15: "py_round2 (4222223166901689 / 70368744177664) = 60"
    by (rule py_round2_near [where k = "6000"], simp,
          rule fl_near [where n = "5" and e = "- 47" and m = "8444249301319680"]) simp_all
  have e16: "fadd (7747779511264599 / 17592186044416) (8792779745072767 / 8796093022208) = 6333334750352533 / 4398046511104"
    unfolding fadd_def
    by (rule fl_near [where n = "10" and e = "- 42" and m = "6333334750352533"]) simp_all
  have e17: "fadd (6333334750352533 / 4398046511104) (4222223166901689 / 70368744177664) = 6597223698283889 / 4398046511104"
    unfolding fadd_def
    by (rule fl_near [where n = "10" and e = "- 42" and m = "6597223698283889"]) simp_all
  have e18: "fadd (6597223698283889 / 4398046511104) (4222223166901689 / 70368744177664) = 6861112646215245 / 4398046511104"
    unfolding fadd_def
    by (rule fl_near [where n = "10" and e = "- 42" and m = "6861112646215245"]) simp_all
  have e19: "py_round2 (6861112646215245 / 4398046511104) = 1715282119795671 / 1099511627776"
    by (rule py_round2_near [where k = "156004"], simp,
          rule fl_near [where n = "10" and e = "- 42" and m = "6861128479182684"]) simp_all
  have e20: "fadd (6333334750352533 / 4398046511104) (7747779511264599 / 17592186044416) = 8270279628168683 / 4398046511104"
    unfolding fadd_def
    by (rule fl_near [where n = "10" and e = "- 42" and m = "8270279628168683"]) simp_all
  have e21: "fadd (8270279628168683 / 4398046511104) (8792779745072767 / 8796093022208) = 6333334750352533 / 2199023255552"
    unfolding fadd_def
    by (rule fl_near [where n = "11" and e = "- 41" and m = "6333334750352533"]) simp_all
  have e22: "fadd (6333334750352533 / 2199023255552) (4222223166901689 / 70368744177664) = 6465279224318211 / 2199023255552"
    unfolding fadd_def
    by (rule fl_near [where n = "11" and e = "- 41" and m = "6465279224318211"]) simp_all
  have e23: "fadd (6465279224318211 / 2199023255552) (4222223166901689 / 70368744177664) = 6597223698283889 / 2199023255552"
    unfolding fadd_def
    by (rule fl_near [where n = "11" and e = "- 41" and m = "6597223698283889"]) simp_all
  have e24: "py_round2 (6597223698283889 / 2199023255552) = 6597223698283889 / 2199023255552"
    by (rule py_round2_near [where k = "300007"], simp,
          rule fl_near [where n = "11" and e = "- 41" and m = "6597223698283889"]) simp_all
  have e25: "fadd (7747774655821251 / 17592186044416) (8792750506859561 / 8796093022208) = 6333318917385093 / 4398046511104"
    unfolding fadd_def
    by (rule fl_near [where n = "10" and e = "- 42" and m = "6333318917385093"]) simp_all
  have e26: "fadd (6333318917385093 / 4398046511104) 60 = 6597201708051333 / 4398046511104"
    unfolding fadd_def
    by (rule fl_near [where n = "10" and e = "- 42" and m = "6597201708051333"]) simp_all
  have e27: "fadd (6597201708051333 / 4398046511104) 60 = 6861084498717573 / 4398046511104"
    unfolding fadd_def
    by (rule fl_near [where n = "10" and e = "- 42" and m = "6861084498717573"]) simp_all
  have e28: "fadd (6333318917385093 / 4398046511104) (7747774655821251 / 17592186044416) = 4135131290670203 / 2199023255552"
    unfolding fadd_def
    by (rule fl_near [where n = "10" and e = "- 42" and m = "8270262581340406"]) simp_all
  have e29: "fadd (4135131290670203 / 2199023255552) (8792750506859561 / 8796093022208) = 6333318917385093 / 2199023255552"
    unfolding fadd_def
    by (rule fl_near [where n = "11" and e = "- 41" and m = "6333318917385093"]) simp_all
  have e30: "fadd (6333318917385093 / 2199023255552) 60 = 6465260312718213 / 2199023255552"
    unfolding fadd_def
    by (rule fl_near [where n = "11" and e = "- 41" and m = "6465260312718213"]) simp_all
  have e31: "fadd (6465260312718213 / 2199023255552) 60 = 6597201708051333 / 2199023255552"
    unfolding fadd_def
    by (rule fl_near [where n = "11" and e = "- 41" and m = "6597201708051333"]) simp_all
  have e32: "fl (144003 / 100) = 6333318917385093 / 4398046511104"
    by (rule fl_near [where n = "10" and e = "- 42" and m = "6333318917385093"]) simp_all
  have e33: "fl (44041 / 100) = 7747774655821251 / 17592186044416"
    by (rule fl_near [where n = "8" and e = "- 44" and m = "7747774655821251"]) simp_all
  have e34: "fl (49981 / 50) = 8792750506859561 / 8796093022208"
    by (rule fl_near [where n = "9" and e = "- 43" and m = "8792750506859561"]) simp_all
  have e35: "fl (39001 / 25) = 1715282119795671 / 1099511627776"
    by (rule fl_near [where n = "10" and e = "- 42" and m = "6861128479182684"]) simp_all
  have e36: "fl (300007 / 100) = 6597223698283889 / 2199023255552"
    by (rule fl_near [where n = "11" and e = "- 41" and m = "6597223698283889"]) simp_all
  have e37: "fl (156003 / 100) = 6861084498717573 / 4398046511104"
    by (rule fl_near [where n = "10" and e = "- 42" and m = "6861084498717573"]) simp_all
  have e38: "fl (150003 / 50) = 6597201708051333 / 2199023255552"
    by (rule fl_near [where n = "11" and e = "- 41" and m = "6597201708051333"]) simp_all
  have v: "calculate_provident_fund maharashtra (6597223698283889 / 549755813888) =
      \<lparr> pf_employee_contribution = 6333318917385093 / 4398046511104,
        pf_employer_epf_contribution = 7747774655821251 / 17592186044416,
        pf_employer_pension_contribution = 8792750506859561 / 8796093022208,
        pf_admin_charges = 60,
        pf_edli_charges = 60,
        pf_total_employer_contribution = 1715282119795671 / 1099511627776,
        pf_total_pf_contribution = 6597223698283889 / 2199023255552 \<rparr>"
    by (simp add: calculate_provident_fund_def Let_def maharashtra_def
        e1 e2 e3 e4 e5 e6 e7 e8 e9 e10 e11 e12 e13 e14 e15 e16 e17 e18 e19 e20 e21 e22
        e23 e24 e25 e26 e27 e28 e29 e30 e31 e32 e33 e34 e35 e36 e37 e38)
  show ?thesis
    by (simp add: v
        e1 e2 e3 e4 e5 e6 e7 e8 e9 e10 e11 e12 e13 e14 e15 e16 e17 e18 e19 e20 e21 e22
        e23 e24 e25 e26 e27 e28 e29 e30 e31 e32 e33 e34 e35 e36 e37 e38)
qed






text \<open>
  C4. \<^verbatim>\<open>calculate_professional_tax\<close> visits the slabs in table order and returns the
  tax of the first slab that matches the monthly salary (\<open>min \<le> salary \<le> max\<close>, or
  \<open>min \<le> salary\<close> for the open-ended slab), and 0 when no slab matches. On the
  Maharashtra table it returns 0 at 9000 and at 10000, 175 at 10001, 200 at 20000, and
  300 at 20001 and at 50000.
\<close>

theorem professional_tax_first_match:
  "calculate_professional_tax sd s =
     (case find (slab_matches s) (monthly_slabs (pt_data sd)) of
        None \<Rightarrow> 0
      | Some sl \<Rightarrow> tax sl)
   \<and> calculate_professional_tax maharashtra 9000 = 0
   \<and> calculate_professional_tax maharashtra 10000 = 0
   \<and> calculate_professional_tax maharashtra 10001 = 175
   \<and> calculate_professional_tax maharashtra 20000 = 200
   \<and> calculate_professional_tax maharashtra 20001 = 300
   \<and> calculate_professional_tax maharashtra 50000 = 300"
proof -
  have general: "calculate_professional_tax sd s =
     (case find (slab_matches s) (monthly_slabs (pt_data sd)) of
        None \<Rightarrow> 0
      | Some sl \<Rightarrow> tax sl)"
    unfolding calculate_professional_tax_def by (rule scan_slabs_find)
  have sample: "calculate_professional_tax maharashtra 9000 = 0"
    "calculate_professional_tax maharashtra 10000 = 0"
    "calculate_professional_tax maharashtra 10001 = 175"
    "calculate_professional_tax maharashtra 20000 = 200"
    "calculate_professional_tax maharashtra 20001 = 300"
    "calculate_professional_tax maharashtra 50000 = 300"
    by (simp_all add: calculate_professional_tax_def maharashtra_def)
  from general sample show ?thesis by blast
qed

text \<open>
  C5. \<^verbatim>\<open>calculate_esi\<close> is applicable exactly when the gross salary is at most the
  income threshold. Then the employee and the employer contribution are the two rates
  applied to the whole gross salary, each rounded to 2 decimals: the double nearest to
  a figure of two decimals within half a hundredth of the product. Above the threshold
  it is not applicable and the three contribution figures are 0.
\<close>

theorem esi_threshold_inclusive:
  "(gross \<le> income_threshold (esi_data sd) \<longrightarrow>
      applicable (calculate_esi sd gross)
      \<and> esi_employee_contribution (calculate_esi sd gross) =
          py_round2 (fmul gross (fdiv (esi_employee_contribution_rate (esi_data sd)) 100))
      \<and> rounded_to_2_decimals
          (fmul gross (fdiv (esi_employee_contribution_rate (esi_data sd)) 100))
          (esi_employee_contribution (calculate_esi sd gross))
      \<and> esi_employer_contribution (calculate_esi sd gross) =
          py_round2 (fmul gross (fdiv (esi_employer_contribution_rate (esi_data sd)) 100))
      \<and> rounded_to_2_decimals
          (fmul gross (fdiv (esi_employer_contribution_rate (esi_data sd)) 100))
          (esi_employer_contribution (calculate_esi sd gross)))
   \<and> (income_threshold (esi_data sd) < gross \<longrightarrow>
      \<not> applicable (calculate_esi sd gross)
      \<and> esi_employee_contribution (calculate_esi sd gross) = 0
      \<and> esi_employer_contribution (calculate_esi sd gross) = 0
      \<and> esi_total_contribution (calculate_esi sd gross) = 0)
   \<and> (applicable (calculate_esi sd gross) \<longleftrightarrow> gross \<le> income_threshold (esi_data sd))"
  by (simp add: calculate_esi_def Let_def rounded_py_round2)

theorem esi_threshold_inclusive_witness:
  "applicable (calculate_esi maharashtra 20002)
   \<and> fmul 20002 (fdiv (3 / 4) 100) = 1319545894726533 / 8796093022208
   \<and> esi_employee_contribution (calculate_esi maharashtra 20002) = fl (15001 / 100)
   \<and> rounded_to_2_decimals (1319545894726533 / 8796093022208)
        (esi_employee_contribution (calculate_esi maharashtra 20002))
   \<and> fmul 20002 (fdiv (13 / 4) 100) = 1429508052620411 / 2199023255552
   \<and> esi_employer_contribution (calculate_esi maharashtra 20002) = fl (65007 / 100)
   \<and> rounded_to_2_decimals (1429508052620411 / 2199023255552)
        (esi_employer_contribution (calculate_esi maharashtra 20002))
   \<and> applicable (calculate_esi maharashtra 21000)
   \<and> esi_employee_contribution (calculate_esi maharashtra 21000) = 315 / 2
   \<and> esi_employer_contribution (calculate_esi maharashtra 21000) = 1365 / 2
   \<and> \<not> applicable (calculate_esi maharashtra 21001)
   \<and> esi_employee_contribution (calculate_esi maharashtra 21001) = 0
   \<and> esi_employer_contribution (calculate_esi maharashtra 21001) = 0
   \<and> esi_total_contribution (calculate_esi maharashtra 21001) = 0"
proof -
  have thr: "income_threshold (esi_data maharashtra) = 21000"
    and r1: "esi_employee_contribution_rate (esi_data maharashtra) = 3 / 4"
    and r2: "esi_employer_contribution_rate (esi_data maharashtra) = 13 / 4"
    by (simp_all add: maharashtra_def)
  have e1: "fdiv (3 / 4) 100 = 1080863910568919 / 144115188075855872"
    unfolding fdiv_def
    by (rule fl_near [where n = "- 8" and e = "- 60" and m = "8646911284551352"]) simp_all
  have e2: "fdiv (13 / 4) 100 = 1170935903116329 / 36028797018963968"
    unfolding fdiv_def
    by (rule fl_near [where n = "- 5" and e = "- 57" and m = "4683743612465316"]) simp_all
  have e3: "fmul 20002 (1080863910568919 / 144115188075855872) = 1319545894726533 / 8796093022208"
    unfolding fmul_def
    by (rule fl_near [where n = "7" and e = "- 45" and m = "5278183578906132"]) simp_all
  have e4: "fmul 20002 (1170935903116329 / 36028797018963968) = 1429508052620411 / 2199023255552"
    unfolding fmul_def
    by (rule fl_near [where n = "9" and e = "- 43" and m = "5718032210481644"]) simp_all
  have e5: "py_round2 (1319545894726533 / 8796093022208) = 659750957130711 / 4398046511104"
    by (rule py_round2_near [where k = "15001"], simp,
          rule fl_near [where n = "7" and e = "- 45" and m = "5278007657045688"]) simp_all
  have e6: "py_round2 (1429508052620411 / 2199023255552) = 5718076190946755 / 8796093022208"
    by (rule py_round2_near [where k = "65007"], simp,
          rule fl_near [where n = "9" and e = "- 43" and m = "5718076190946755"]) simp_all
  have e7: "fadd (1319545894726533 / 8796093022208) (1429508052620411 / 2199023255552) = 7037578105208177 / 8796093022208"
    unfolding fadd_def
    by (rule fl_near [where n = "9" and e = "- 43" and m = "7037578105208177"]) simp_all
  have e8: "py_round2 (7037578105208177 / 8796093022208) = 7037578105208177 / 8796093022208"
    by (rule py_round2_near [where k = "80008"], simp,
          rule fl_near [where n = "9" and e = "- 43" and m = "7037578105208177"]) simp_all
  have e9: "fmul 21000 (1080863910568919 / 144115188075855872) = 315 / 2"
    unfolding fmul_def
    by (rule fl_near [where n = "7" and e = "- 45" and m = "5541538603991040"]) simp_all
  have e10: "fmul 21000 (1170935903116329 / 36028797018963968) = 1365 / 2"
    unfolding fmul_def
    by (rule fl_near [where n = "9" and e = "- 43" and m = "6003333487656960"]) simp_all
  have e11: "py_round2 (315 / 2) = 315 / 2"
    by (rule py_round2_near [where k = "15750"], simp,
          rule fl_near [where n = "7" and e = "- 45" and m = "5541538603991040"]) simp_all
  have e12: "py_round2 (1365 / 2) = 1365 / 2"
    by (rule py_round2_near [where k = "68250"], simp,
          rule fl_near [where n = "9" and e = "- 43" and m = "6003333487656960"]) simp_all
  have e13: "fadd (315 / 2) (1365 / 2) = 840"
    unfolding fadd_def
    by (rule fl_near [where n = "9" and e = "- 43" and m = "7388718138654720"]) simp_all
  have e14: "py_round2 840 = 840"
    by (rule py_round2_near [where k = "84000"], simp,
          rule fl_near [where n = "9" and e = "- 43" and m = "7388718138654720"]) simp_all
  have e15: "fl (15001 / 100) = 659750957130711 / 4398046511104"
    by (rule fl_near [where n = "7" and e = "- 45" and m = "5278007657045688"]) simp_all
  have e16: "fl (65007 / 100) = 5718076190946755 / 8796093022208"
    by (rule fl_near [where n = "9" and e = "- 43" and m = "5718076190946755"]) simp_all
  have e17: "fl (315 / 2) = 315 / 2"
    by (rule fl_near [where n = "7" and e = "- 45" and m = "5541538603991040"]) simp_all
  have e18: "fl (1365 / 2) = 1365 / 2"
    by (rule fl_near [where n = "9" and e = "- 43" and m = "6003333487656960"]) simp_all
  show ?thesis
    using esi_threshold_inclusive [of 20002 maharashtra]
      esi_threshold_inclusive [of 21000 maharashtra]
      esi_threshold_inclusive [of 21001 maharashtra]
    by (simp add: thr r1 r2
        e1 e2 e3 e4 e5 e6 e7 e8 e9 e10 e11 e12 e13 e14 e15 e16 e17 e18)
qed

text \<open>
  C6. In the breakdown of \<^verbatim>\<open>calculate_net_salary\<close> the annual professional tax is the
  smaller of the monthly professional tax times 12 and the annual ceiling. The monthly
  figure is the result of \<^verbatim>\<open>calculate_professional_tax\<close> on the gross salary, which
  does not depend on the ceiling. Every other itemised deduction and every employer
  contribution has its monthly figure times 12, a product of doubles, as its annual
  figure.
\<close>

theorem annualisation:
  "professional_tax (deductions (annual (employee_details (calculate_net_salary sd c b bs)))) =
     min (fmul (professional_tax (deductions (monthly (employee_details
            (calculate_net_salary sd c b bs))))) 12)
         (annual_ceiling (pt_data sd))
   \<and> professional_tax (deductions (monthly (employee_details (calculate_net_salary sd c b bs)))) =
       calculate_professional_tax sd (fadd b (sum_values (map snd bs)))
   \<and> calculate_professional_tax (sd\<lparr>pt_data := (pt_data sd)\<lparr>annual_ceiling := c'\<rparr>\<rparr>) s =
       calculate_professional_tax sd s
   \<and> pf_contribution (deductions (annual (employee_details (calculate_net_salary sd c b bs)))) =
       fmul (pf_contribution (deductions (monthly (employee_details
            (calculate_net_salary sd c b bs))))) 12
   \<and> esi_contribution (deductions (annual (employee_details (calculate_net_salary sd c b bs)))) =
       fmul (esi_contribution (deductions (monthly (employee_details
            (calculate_net_salary sd c b bs))))) 12
   \<and> labour_welfare_fund (deductions (annual (employee_details
            (calculate_net_salary sd c b bs)))) =
       fmul (labour_welfare_fund (deductions (monthly (employee_details
            (calculate_net_salary sd c b bs))))) 12
   \<and> epf_contribution (pf_details (employer_annual (employer_contributions
            (calculate_net_salary sd c b bs)))) =
       fmul (epf_contribution (pf_details (employer_monthly (employer_contributions
            (calculate_net_salary sd c b bs))))) 12
   \<and> pension_contribution (pf_details (employer_annual (employer_contributions
            (calculate_net_salary sd c b bs)))) =
       fmul (pension_contribution (pf_details (employer_monthly (employer_contributions
            (calculate_net_salary sd c b bs))))) 12
   \<and> admin_charges (pf_details (employer_annual (employer_contributions
            (calculate_net_salary sd c b bs)))) =
       fmul (admin_charges (pf_details (employer_monthly (employer_contributions
            (calculate_net_salary sd c b bs))))) 12
   \<and> edli_charges (pf_details (employer_annual (employer_contributions
            (calculate_net_salary sd c b bs)))) =
       fmul (edli_charges (pf_details (employer_monthly (employer_contributions
            (calculate_net_salary sd c b bs))))) 12
   \<and> employer_esi_contribution (employer_annual (employer_contributions
            (calculate_net_salary sd c b bs))) =
       fmul (employer_esi_contribution (employer_monthly (employer_contributions
            (calculate_net_salary sd c b bs)))) 12
   \<and> employer_labour_welfare_fund (employer_annual (employer_contributions
            (calculate_net_salary sd c b bs))) =
       fmul (employer_labour_welfare_fund (employer_monthly (employer_contributions
            (calculate_net_salary sd c b bs)))) 12
   \<and> total_contributions (employer_annual (employer_contributions
            (calculate_net_salary sd c b bs))) =
       fmul (total_contributions (employer_monthly (employer_contributions
            (calculate_net_salary sd c b bs)))) 12"
  by (simp add: calculate_net_salary_def calculate_professional_tax_def Let_def)

text \<open>
  C9. \<^verbatim>\<open>calculate_labour_welfare_fund\<close> has the rule table as its only input. Under
  the semi-annual frequency it returns the table's employee and employer amounts
  divided by 6, under the annual frequency divided by 12, each rounded to 2 decimals,
  with the payment frequency. The total it returns is not the total of the two
  rounded amounts: it is the sum of the two unrounded monthly equivalents, rounded
  once. An annual employer amount of 240 gives 20, a semi-annual one of 12 gives 2.
\<close>

theorem labour_welfare_fund_monthly_equivalent:
  "(payment_frequency (lwf_data sd) = ''semi-annual'' \<longrightarrow>
      lwf_employee_contribution (calculate_labour_welfare_fund sd) =
        py_round2 (fdiv (lwf_rule_employee_contribution (lwf_data sd)) 6)
      \<and> rounded_to_2_decimals (fdiv (lwf_rule_employee_contribution (lwf_data sd)) 6)
          (lwf_employee_contribution (calculate_labour_welfare_fund sd))
      \<and> lwf_employer_contribution (calculate_labour_welfare_fund sd) =
        py_round2 (fdiv (lwf_rule_employer_contribution (lwf_data sd)) 6)
      \<and> rounded_to_2_decimals (fdiv (lwf_rule_employer_contribution (lwf_data sd)) 6)
          (lwf_employer_contribution (calculate_labour_welfare_fund sd))
      \<and> lwf_total_contribution (calculate_labour_welfare_fund sd) =
        py_round2
          (fadd (fdiv (lwf_rule_employee_contribution (lwf_data sd)) 6)
             (fdiv (lwf_rule_employer_contribution (lwf_data sd)) 6))
      \<and> rounded_to_2_decimals
          (fadd (fdiv (lwf_rule_employee_contribution (lwf_data sd)) 6)
             (fdiv (lwf_rule_employer_contribution (lwf_data sd)) 6))
          (lwf_total_contribution (calculate_labour_welfare_fund sd)))
   \<and> (payment_frequency (lwf_data sd) = ''annual'' \<longrightarrow>
      lwf_employee_contribution (calculate_labour_welfare_fund sd) =
        py_round2 (fdiv (lwf_rule_employee_contribution (lwf_data sd)) 12)
      \<and> rounded_to_2_decimals (fdiv (lwf_rule_employee_contribution (lwf_data sd)) 12)
          (lwf_employee_contribution (calculate_labour_welfare_fund sd))
      \<and> lwf_employer_contribution (calculate_labour_welfare_fund sd) =
        py_round2 (fdiv (lwf_rule_employer_contribution (lwf_data sd)) 12)
      \<and> rounded_to_2_decimals (fdiv (lwf_rule_employer_contribution (lwf_data sd)) 12)
          (lwf_employer_contribution (calculate_labour_welfare_fund sd))
      \<and> lwf_total_contribution (calculate_labour_welfare_fund sd) =
        py_round2
          (fadd (fdiv (lwf_rule_employee_contribution (lwf_data sd)) 12)
             (fdiv (lwf_rule_employer_contribution (lwf_data sd)) 12))
      \<and> rounded_to_2_decimals
          (fadd (fdiv (lwf_rule_employee_contribution (lwf_data sd)) 12)
             (fdiv (lwf_rule_employer_contribution (lwf_data sd)) 12))
          (lwf_total_contribution (calculate_labour_welfare_fund sd)))
   \<and> lwf_payment_frequency (calculate_labour_welfare_fund sd) = payment_frequency (lwf_data sd)
   \<and> (payment_frequency (lwf_data sd) = ''annual''
        \<and> lwf_rule_employer_contribution (lwf_data sd) = 240 \<longrightarrow>
      lwf_employer_contribution (calculate_labour_welfare_fund sd) = 20)
   \<and> (payment_frequency (lwf_data sd) = ''semi-annual''
        \<and> lwf_rule_employer_contribution (lwf_data sd) = 12 \<longrightarrow>
      lwf_employer_contribution (calculate_labour_welfare_fund sd) = 2)"
proof -
  have e1: "fdiv 240 12 = 20"
    unfolding fdiv_def
    by (rule fl_near [where n = "4" and e = "- 48" and m = "5629499534213120"]) simp_all
  have e2: "py_round2 20 = 20"
    by (rule py_round2_near [where k = "2000"], simp,
          rule fl_near [where n = "4" and e = "- 48" and m = "5629499534213120"]) simp_all
  have e3: "fdiv 12 6 = 2"
    unfolding fdiv_def
    by (rule fl_near [where n = "1" and e = "- 51" and m = "4503599627370496"]) simp_all
  have e4: "py_round2 2 = 2"
    by (rule py_round2_near [where k = "200"], simp,
          rule fl_near [where n = "1" and e = "- 51" and m = "4503599627370496"]) simp_all
  show ?thesis
    by (auto simp add: calculate_labour_welfare_fund_def monthly_equivalent_def Let_def
        rounded_py_round2 e1 e2 e3 e4)
qed

theorem labour_welfare_fund_monthly_equivalent_witness:
  "payment_frequency (lwf_data maharashtra) = ''semi-annual''
   \<and> lwf_rule_employer_contribution (lwf_data maharashtra) = 12
   \<and> lwf_employee_contribution (calculate_labour_welfare_fund maharashtra) = 1
   \<and> lwf_employer_contribution (calculate_labour_welfare_fund maharashtra) = 2
   \<and> lwf_total_contribution (calculate_labour_welfare_fund maharashtra) = 3
   \<and> lwf_payment_frequency (calculate_labour_welfare_fund maharashtra) = ''semi-annual''
   \<and> payment_frequency (lwf_data (karnataka\<lparr>lwf_data :=
        (lwf_data karnataka)\<lparr>lwf_rule_employer_contribution := 240\<rparr>\<rparr>)) = ''annual''
   \<and> lwf_employee_contribution (calculate_labour_welfare_fund (karnataka\<lparr>lwf_data :=
        (lwf_data karnataka)\<lparr>lwf_rule_employer_contribution := 240\<rparr>\<rparr>)) = fl (167 / 100)
   \<and> lwf_employer_contribution (calculate_labour_welfare_fund (karnataka\<lparr>lwf_data :=
        (lwf_data karnataka)\<lparr>lwf_rule_employer_contribution := 240\<rparr>\<rparr>)) = 20
   \<and> lwf_total_contribution (calculate_labour_welfare_fund (karnataka\<lparr>lwf_data :=
        (lwf_data karnataka)\<lparr>lwf_rule_employer_contribution := 240\<rparr>\<rparr>)) = fl (2167 / 100)"
proof -
  have e1: "fdiv 6 6 = 1"
    unfolding fdiv_def
    by (rule fl_near [where n = "0" and e = "- 52" and m = "4503599627370496"]) simp_all
  have e2: "fdiv 12 6 = 2"
    unfolding fdiv_def
    by (rule fl_near [where n = "1" and e = "- 51" and m = "4503599627370496"]) simp_all
  have e3: "py_round2 1 = 1"
    by (rule py_round2_near [where k = "100"], simp,
          rule fl_near [where n = "0" and e = "- 52" and m = "4503599627370496"]) simp_all
  have e4: "py_round2 2 = 2"
    by (rule py_round2_near [where k = "200"], simp,
          rule fl_near [where n = "1" and e = "- 51" and m = "4503599627370496"]) simp_all
  have e5: "fadd 1 2 = 3"
    unfolding fadd_def
    by (rule fl_near [where n = "1" and e = "- 51" and m = "6755399441055744"]) simp_all
  have e6: "py_round2 3 = 3"
    by (rule py_round2_near [where k = "300"], simp,
          rule fl_near [where n = "1" and e = "- 51" and m = "6755399441055744"]) simp_all
  have e7: "fdiv 20 12 = 7505999378950827 / 4503599627370496"
    unfolding fdiv_def
    by (rule fl_near [where n = "0" and e = "- 52" and m = "7505999378950827"]) simp_all
  have e8: "fdiv 240 12 = 20"
    unfolding fdiv_def
    by (rule fl_near [where n = "4" and e = "- 48" and m = "5629499534213120"]) simp_all
  have e9: "py_round2 (7505999378950827 / 4503599627370496) = 940126422213591 / 562949953421312"
    by (rule py_round2_near [where k = "167"], simp,
          rule fl_near [where n = "0" and e = "- 52" and m = "7521011377708728"]) simp_all
  have e10: "py_round2 20 = 20"
    by (rule py_round2_near [where k = "2000"], simp,
          rule fl_near [where n = "4" and e = "- 48" and m = "5629499534213120"]) simp_all
  have e11: "fadd (7505999378950827 / 4503599627370496) 20 = 6098624495397547 / 281474976710656"
    unfolding fadd_def
    by (rule fl_near [where n = "4" and e = "- 48" and m = "6098624495397547"]) simp_all
  have e12: "py_round2 (6098624495397547 / 281474976710656) = 1524890686329979 / 70368744177664"
    by (rule py_round2_near [where k = "2167"], simp,
          rule fl_near [where n = "4" and e = "- 48" and m = "6099562745319916"]) simp_all
  have e13: "fl (167 / 100) = 940126422213591 / 562949953421312"
    by (rule fl_near [where n = "0" and e = "- 52" and m = "7521011377708728"]) simp_all
  have e14: "fl (2167 / 100) = 1524890686329979 / 70368744177664"
    by (rule fl_near [where n = "4" and e = "- 48" and m = "6099562745319916"]) simp_all
  have m: "payment_frequency (lwf_data maharashtra) = ''semi-annual''"
    "lwf_rule_employee_contribution (lwf_data maharashtra) = 6"
    "lwf_rule_employer_contribution (lwf_data maharashtra) = 12"
    by (simp_all add: maharashtra_def)
  have k: "payment_frequency (lwf_data karnataka) = ''annual''"
    "lwf_rule_employee_contribution (lwf_data karnataka) = 20"
    by (simp_all add: karnataka_def)
  show ?thesis
    using labour_welfare_fund_monthly_equivalent [of maharashtra]
      labour_welfare_fund_monthly_equivalent [of "karnataka\<lparr>lwf_data :=
        (lwf_data karnataka)\<lparr>lwf_rule_employer_contribution := 240\<rparr>\<rparr>"]
    by (simp add: m k
        e1 e2 e3 e4 e5 e6 e7 e8 e9 e10 e11 e12 e13 e14)
qed

text \<open>
  With an employee and an employer amount of 5 at the annual frequency both monthly
  equivalents are 0.41666..., returned as 0.42 and 0.42, which add up to 0.84; the
  total returned is 0.83.
\<close>

theorem labour_welfare_fund_total_counterexample:
  "lwf_employee_contribution (calculate_labour_welfare_fund (karnataka\<lparr>lwf_data :=
        \<lparr> lwf_rule_employee_contribution = 5,
          lwf_rule_employer_contribution = 5,
          payment_frequency = ''annual'' \<rparr>\<rparr>)) = fl (42 / 100)
   \<and> lwf_employer_contribution (calculate_labour_welfare_fund (karnataka\<lparr>lwf_data :=
        \<lparr> lwf_rule_employee_contribution = 5,
          lwf_rule_employer_contribution = 5,
          payment_frequency = ''annual'' \<rparr>\<rparr>)) = fl (42 / 100)
   \<and> fadd (fl (42 / 100)) (fl (42 / 100)) = fl (84 / 100)
   \<and> lwf_total_contribution (calculate_labour_welfare_fund (karnataka\<lparr>lwf_data :=
        \<lparr> lwf_rule_employee_contribution = 5,
          lwf_rule_employer_contribution = 5,
          payment_frequency = ''annual'' \<rparr>\<rparr>)) = fl (83 / 100)
   \<and> fl (83 / 100) \<noteq> fl (84 / 100)"
proof -
  have e1: "fdiv 5 12 = 7505999378950827 / 18014398509481984"
    unfolding fdiv_def
    by (rule fl_near [where n = "- 2" and e = "- 54" and m = "7505999378950827"]) simp_all
  have e2: "py_round2 (7505999378950827 / 18014398509481984) = 7566047373982433 / 18014398509481984"
    by (rule py_round2_near [where k = "42"], simp,
          rule fl_near [where n = "- 2" and e = "- 54" and m = "7566047373982433"]) simp_all
  have e3: "fadd (7505999378950827 / 18014398509481984) (7505999378950827 / 18014398509481984) = 7505999378950827 / 9007199254740992"
    unfolding fadd_def
    by (rule fl_near [where n = "- 1" and e = "- 53" and m = "7505999378950827"]) simp_all
  have e4: "py_round2 (7505999378950827 / 9007199254740992) = 7475975381435023 / 9007199254740992"
    by (rule py_round2_near [where k = "83"], simp,
          rule fl_near [where n = "- 1" and e = "- 53" and m = "7475975381435023"]) simp_all
  have e5: "fl (21 / 50) = 7566047373982433 / 18014398509481984"
    by (rule fl_near [where n = "- 2" and e = "- 54" and m = "7566047373982433"]) simp_all
  have e6: "fl (83 / 100) = 7475975381435023 / 9007199254740992"
    by (rule fl_near [where n = "- 1" and e = "- 53" and m = "7475975381435023"]) simp_all
  have e7: "fadd (7566047373982433 / 18014398509481984) (7566047373982433 / 18014398509481984) = 7566047373982433 / 9007199254740992"
    unfolding fadd_def
    by (rule fl_near [where n = "- 1" and e = "- 53" and m = "7566047373982433"]) simp_all
  have e8: "fl (21 / 25) = 7566047373982433 / 9007199254740992"
    by (rule fl_near [where n = "- 1" and e = "- 53" and m = "7566047373982433"]) simp_all
  show ?thesis
    by (simp add: calculate_labour_welfare_fund_def monthly_equivalent_def Let_def
        e1 e2 e3 e4 e5 e6 e7 e8)
qed

text \<open>
  C10. In the breakdown of \<^verbatim>\<open>calculate_net_salary\<close> the flag
  \<^verbatim>\<open>professional_tax_applicable\<close> holds exactly when the monthly professional tax,
  computed on the gross salary, is above 0, and the flag \<^verbatim>\<open>esi_applicable\<close> is the
  \<^verbatim>\<open>applicable\<close> flag of \<^verbatim>\<open>calculate_esi\<close> on the gross salary.
\<close>

theorem compliance_flags:
  "professional_tax_applicable (compliance (calculate_net_salary sd c b bs)) =
     (0 < professional_tax (deductions (monthly (employee_details
            (calculate_net_salary sd c b bs)))))
   \<and> professional_tax (deductions (monthly (employee_details
            (calculate_net_salary sd c b bs)))) =
       calculate_professional_tax sd (fadd b (sum_values (map snd bs)))
   \<and> gross_salary (monthly (employee_details (calculate_net_salary sd c b bs))) =
       fadd b (sum_values (map snd bs))
   \<and> esi_applicable (compliance (calculate_net_salary sd c b bs)) =
       applicable (calculate_esi sd
         (gross_salary (monthly (employee_details (calculate_net_salary sd c b bs)))))"
  by (simp add: calculate_net_salary_def Let_def)

section \<open>Properties of the validator\<close>



lemma missing_field_required:
  "missing_field ed required_fields =
     (if ctc_field ed = None then Some ''ctc''
      else if base_salary_field ed = None then Some ''base_salary''
      else if location_field ed = None then Some ''location''
      else None)"
  by (simp add: required_fields_def has_field_def)

lemma lower_Maharashtra: "lower ''Maharashtra'' = ''maharashtra''"
  by code_simp

lemma lower_Delhi: "lower ''Delhi'' = ''delhi''"
  by code_simp



text \<open>
  C8. \<^verbatim>\<open>validate_employee_data\<close> fails with the missing-field error of the first
  absent field among \<^verbatim>\<open>ctc\<close>, \<^verbatim>\<open>base_salary\<close> and \<^verbatim>\<open>location\<close>, in this order. With
  the three present it validates the location first, so that a location outside the
  allow-list fails whatever the salary figures are, and then the salary figures, with
  an empty mapping for absent benefits. A result is the input with the location in
  lowercase and every other field as it was.
\<close>

theorem validate_employee_data_cases:
  "(ctc_field ed = None \<longrightarrow>
      validate_employee_data allowed ed = Inl (RequiredFieldMissing ''ctc''))
   \<and> (ctc_field ed \<noteq> None \<and> base_salary_field ed = None \<longrightarrow>
      validate_employee_data allowed ed = Inl (RequiredFieldMissing ''base_salary''))
   \<and> (ctc_field ed \<noteq> None \<and> base_salary_field ed \<noteq> None \<and> location_field ed = None \<longrightarrow>
      validate_employee_data allowed ed = Inl (RequiredFieldMissing ''location''))
   \<and> (ctc_field ed = Some c \<and> base_salary_field ed = Some b \<and> location_field ed = Some l \<longrightarrow>
      (lower l \<notin> set allowed \<longrightarrow>
         validate_employee_data allowed ed = Inl (LocationNotAllowed (lower l) allowed))
      \<and> (lower l \<in> set allowed \<longrightarrow>
         validate_employee_data allowed ed =
           (case validate_salary c b (case benefits_field ed of None \<Rightarrow> [] | Some bs \<Rightarrow> bs) of
              Inl e \<Rightarrow> Inl e
            | Inr _ \<Rightarrow> Inr (ed\<lparr>location_field := Some (lower l)\<rparr>))))
   \<and> (validate_employee_data allowed ed = Inr ed' \<longrightarrow>
      ctc_field ed' = ctc_field ed
      \<and> base_salary_field ed' = base_salary_field ed
      \<and> benefits_field ed' = benefits_field ed
      \<and> employee_data.more ed' = employee_data.more ed
      \<and> (\<exists>l'. location_field ed = Some l' \<and> location_field ed' = Some (lower l')))"
proof -
  have m1: "ctc_field ed = None \<longrightarrow>
      validate_employee_data allowed ed = Inl (RequiredFieldMissing ''ctc'')"
    by (simp add: validate_employee_data_def missing_field_required)
  have m2: "ctc_field ed \<noteq> None \<and> base_salary_field ed = None \<longrightarrow>
      validate_employee_data allowed ed = Inl (RequiredFieldMissing ''base_salary'')"
    by (simp add: validate_employee_data_def missing_field_required)
  have m3: "ctc_field ed \<noteq> None \<and> base_salary_field ed \<noteq> None \<and> location_field ed = None \<longrightarrow>
      validate_employee_data allowed ed = Inl (RequiredFieldMissing ''location'')"
    by (simp add: validate_employee_data_def missing_field_required)
  have p: "ctc_field ed = Some c \<and> base_salary_field ed = Some b \<and> location_field ed = Some l \<longrightarrow>
      (lower l \<notin> set allowed \<longrightarrow>
         validate_employee_data allowed ed = Inl (LocationNotAllowed (lower l) allowed))
      \<and> (lower l \<in> set allowed \<longrightarrow>
         validate_employee_data allowed ed =
           (case validate_salary c b (case benefits_field ed of None \<Rightarrow> [] | Some bs \<Rightarrow> bs) of
              Inl e \<Rightarrow> Inl e
            | Inr _ \<Rightarrow> Inr (ed\<lparr>location_field := Some (lower l)\<rparr>)))"
    by (simp add: validate_employee_data_def missing_field_required read_field_def
        validate_location_def Let_def)
  have r: "validate_employee_data allowed ed = Inr ed' \<longrightarrow>
      ctc_field ed' = ctc_field ed
      \<and> base_salary_field ed' = base_salary_field ed
      \<and> benefits_field ed' = benefits_field ed
      \<and> employee_data.more ed' = employee_data.more ed
      \<and> (\<exists>l'. location_field ed = Some l' \<and> location_field ed' = Some (lower l'))"
    by (auto simp add: validate_employee_data_def missing_field_required read_field_def
        validate_location_def Let_def split: if_splits option.splits sum.splits)
  from m1 m2 m3 p r show ?thesis by blast
qed

theorem validate_employee_data_cases_witness:
  "validate_employee_data default_allowed_states
      \<lparr> ctc_field = None, base_salary_field = Some 15000,
        location_field = Some ''Maharashtra'', benefits_field = None \<rparr>
     = Inl (RequiredFieldMissing ''ctc'')
   \<and> validate_employee_data default_allowed_states
      \<lparr> ctc_field = Some 300000, base_salary_field = None,
        location_field = None, benefits_field = None \<rparr>
     = Inl (RequiredFieldMissing ''base_salary'')
   \<and> validate_employee_data default_allowed_states
      \<lparr> ctc_field = Some 300000, base_salary_field = Some 15000,
        location_field = None, benefits_field = None \<rparr>
     = Inl (RequiredFieldMissing ''location'')
   \<and> validate_employee_data default_allowed_states
      \<lparr> ctc_field = Some (- 1), base_salary_field = Some 15000,
        location_field = Some ''Delhi'', benefits_field = None \<rparr>
     = Inl (LocationNotAllowed ''delhi'' default_allowed_states)
   \<and> validate_employee_data default_allowed_states
      \<lparr> ctc_field = Some 300000, base_salary_field = Some 15000,
        location_field = Some ''Maharashtra'', benefits_field = None \<rparr>
     = Inr \<lparr> ctc_field = Some 300000, base_salary_field = Some 15000,
            location_field = Some ''maharashtra'', benefits_field = None \<rparr>
   \<and> validate_employee_data default_allowed_states
      \<lparr> ctc_field = Some 300000, base_salary_field = Some 30000,
        location_field = Some ''Maharashtra'',
        benefits_field = Some [(''hra'', 6000), (''conveyance'', 1000)] \<rparr>
     = Inl (GrossExceedsCtc 37000 25000)"
proof -
  have v1: "validate_salary 300000 15000 [] = Inr True"
    by (simp add: validate_salary_def)
  have v2: "validate_salary 300000 30000 [(''hra'', 6000), (''conveyance'', 1000)] =
      Inl (GrossExceedsCtc 37000 25000)"
    by (simp add: validate_salary_def)
  have a1: "''maharashtra'' \<in> set default_allowed_states"
    and a2: "''delhi'' \<notin> set default_allowed_states"
    by (simp_all add: default_allowed_states_def)
  show ?thesis
    using validate_employee_data_cases [where allowed = default_allowed_states
        and ed = "\<lparr> ctc_field = None, base_salary_field = Some 15000,
          location_field = Some ''Maharashtra'', benefits_field = None \<rparr>"]
      validate_employee_data_cases [where allowed = default_allowed_states
        and ed = "\<lparr> ctc_field = Some 300000, base_salary_field = None,
          location_field = None, benefits_field = None \<rparr>"]
      validate_employee_data_cases [where allowed = default_allowed_states
        and ed = "\<lparr> ctc_field = Some 300000, base_salary_field = Some 15000,
          location_field = None, benefits_field = None \<rparr>"]
      validate_employee_data_cases [where allowed = default_allowed_states
        and ed = "\<lparr> ctc_field = Some (- 1), base_salary_field = Some 15000,
          location_field = Some ''Delhi'', benefits_field = None \<rparr>"
        and c = "- 1" and b = 15000 and l = "''Delhi''"]
      validate_employee_data_cases [where allowed = default_allowed_states
        and ed = "\<lparr> ctc_field = Some 300000, base_salary_field = Some 15000,
          location_field = Some ''Maharashtra'', benefits_field = None \<rparr>"
        and c = "300000" and b = 15000 and l = "''Maharashtra''"]
      validate_employee_data_cases [where allowed = default_allowed_states
        and ed = "\<lparr> ctc_field = Some 300000, base_salary_field = Some 30000,
          location_field = Some ''Maharashtra'',
          benefits_field = Some [(''hra'', 6000), (''conveyance'', 1000)] \<rparr>"
        and c = "300000" and b = 30000 and l = "''Maharashtra''"]
    by (simp add: lower_Maharashtra lower_Delhi a1 a2 v1 v2)
qed


end
